theory Spec2Isabelle
  imports Complex_Main
begin

section \<open>Exceptions and the outside world\<close>

text \<open>
  The runner observes of an exception only \<open>str(e)\<close>.  \<open>FileNotFoundError m\<close> is the
  exception the runner raises itself; \<open>Exception m\<close> stands for any other instance of
  Python's \<open>Exception\<close> whose \<open>str\<close> is \<open>m\<close> (what a vision client or the embedding
  model raises).  A raising call is \<open>Inl e\<close>, a returning call \<open>Inr v\<close>.
\<close>

datatype exn = FileNotFoundError string | Exception string

fun str :: "exn \<Rightarrow> string" where
  "str (FileNotFoundError m) = m"
| "str (Exception m) = m"

text \<open>
  The file system, the clock, the remote vision service and the embedding model are not
  functions of their arguments alone: the same path may exist now and not later, the same
  image may be described differently by two calls.  Every outside call therefore takes the
  moment \<open>t\<close> of the call; \<open>run_all_tests\<close> runs its \<open>k\<close>-th case at moment \<open>t + k\<close>.
\<close>

record world =
  path_exists :: "nat \<Rightarrow> string \<Rightarrow> bool"
  now_isoformat :: "nat \<Rightarrow> string"


section \<open>TestCase\<close>

record TestCase =
  id_tc :: int
  image_path :: string
  expected_description :: string
  actual_description :: string
  similarity_score :: real
  passed :: bool
  timestamp :: string

text \<open>The dataclass constructor with its four defaults.\<close>

definition new_TestCase :: "int \<Rightarrow> string \<Rightarrow> string \<Rightarrow> TestCase" where
  "new_TestCase i p d =
     \<lparr>id_tc = i, image_path = p, expected_description = d, actual_description = [],
      similarity_score = 0, passed = False, timestamp = []\<rparr>"


section \<open>SemanticComparator\<close>

text \<open>
  \<open>model.encode([text1, text2], convert_to_tensor=True)\<close> returns a tensor of two rows of
  one width, or raises.  The two rows are a pair of vectors.
\<close>

type_synonym embedding = "real list"

record SentenceTransformer =
  encode :: "nat \<Rightarrow> string \<Rightarrow> string \<Rightarrow> exn + embedding \<times> embedding"

record SemanticComparator =
  model :: SentenceTransformer

definition dot :: "embedding \<Rightarrow> embedding \<Rightarrow> real" where
  "dot a b = sum_list (map (\<lambda>(x, y). x * y) (zip a b))"

definition magnitude :: "embedding \<Rightarrow> real" where
  "magnitude a = sqrt (dot a a)"

text \<open>
  Modelled from the spec: \<open>util.cos_sim\<close> belongs to the sentence-transformers library and is
  not part of the repository.  The glossary defines cosine similarity as the dot product of
  two vectors divided by the product of their magnitudes; for a vector of magnitude zero the
  library's normalisation yields similarity 0.
\<close>

definition cos_sim :: "embedding \<Rightarrow> embedding \<Rightarrow> real" where
  "cos_sim a b =
     (if magnitude a = 0 \<or> magnitude b = 0 then 0
      else dot a b / (magnitude a * magnitude b))"

text \<open>\<open>SentenceTransformer(model_name)\<close> loads the model or raises; \<open>load\<close> is that call.\<close>

definition SemanticComparator_init ::
  "(string \<Rightarrow> exn + SentenceTransformer) \<Rightarrow> string \<Rightarrow> exn + SemanticComparator" where
  "SemanticComparator_init load model_name =
     (case load model_name of
        Inl e \<Rightarrow> Inl e
      | Inr m \<Rightarrow> Inr \<lparr>model = m\<rparr>)"

text \<open>\<open>compare\<close> re-raises whatever the model raises and returns the cosine otherwise.\<close>

definition compare :: "SemanticComparator \<Rightarrow> nat \<Rightarrow> string \<Rightarrow> string \<Rightarrow> exn + real" where
  "compare c t text1 text2 =
     (case encode (model c) t text1 text2 of
        Inl e \<Rightarrow> Inl e
      | Inr (e0, e1) \<Rightarrow> Inr (cos_sim e0 e1))"


section \<open>ImageTestRunner\<close>

text \<open>
  The threshold of this record is a number, as the annotation of the constructor has it; the
  section on a threshold of any type drops that.
\<close>

record ImageTestRunner =
  vision_client :: "nat \<Rightarrow> string \<Rightarrow> exn + string"
  comparator :: SemanticComparator
  similarity_threshold :: real

definition ImageTestRunner_init ::
  "(string \<Rightarrow> exn + SentenceTransformer) \<Rightarrow> (nat \<Rightarrow> string \<Rightarrow> exn + string) \<Rightarrow> real
     \<Rightarrow> exn + ImageTestRunner" where
  "ImageTestRunner_init load client threshold =
     (case SemanticComparator_init load ''all-MiniLM-L6-v2'' of
        Inl e \<Rightarrow> Inl e
      | Inr c \<Rightarrow>
          Inr \<lparr>vision_client = client, comparator = c, similarity_threshold = threshold\<rparr>)"

text \<open>
  \<open>run_test_case\<close> changes its argument by field assignments only.  Each assignment
  statement of the source is one \<open>assignment\<close>; the assignments a call performs, in
  program order, are its trace, and the case it returns is the argument with the trace applied.
\<close>

datatype assignment =
    Set_actual_description string
  | Set_similarity_score real
  | Set_passed bool
  | Set_timestamp string

fun assign :: "TestCase \<Rightarrow> assignment \<Rightarrow> TestCase" where
  "assign tc (Set_actual_description d) = tc\<lparr>actual_description := d\<rparr>"
| "assign tc (Set_similarity_score s) = tc\<lparr>similarity_score := s\<rparr>"
| "assign tc (Set_passed b) = tc\<lparr>passed := b\<rparr>"
| "assign tc (Set_timestamp ts) = tc\<lparr>timestamp := ts\<rparr>"

text \<open>
  The body of the \<open>try\<close>: the writes done before control leaves it, and the exception that
  ended it, if any.  The comparator is called with the description just written.
\<close>

definition try_body ::
  "world \<Rightarrow> ImageTestRunner \<Rightarrow> nat \<Rightarrow> TestCase \<Rightarrow> assignment list \<times> exn option" where
  "try_body w r t test_case =
     (if \<not> path_exists w t (image_path test_case) then
        ([], Some (FileNotFoundError (''Image file not found: '' @ image_path test_case)))
      else
        case vision_client r t (image_path test_case) of
          Inl e \<Rightarrow> ([], Some e)
        | Inr description \<Rightarrow>
            (case compare (comparator r) t (expected_description test_case) description of
               Inl e \<Rightarrow> ([Set_actual_description description], Some e)
             | Inr score \<Rightarrow>
                 ([Set_actual_description description,
                   Set_similarity_score score,
                   Set_passed (score \<ge> similarity_threshold r),
                   Set_timestamp (now_isoformat w t)], None)))"

text \<open>The \<open>except Exception as e\<close> block.\<close>

definition except_handler :: "world \<Rightarrow> nat \<Rightarrow> exn \<Rightarrow> assignment list" where
  "except_handler w t e =
     [Set_actual_description (''Error: '' @ str e),
      Set_passed False,
      Set_timestamp (now_isoformat w t)]"

definition run_test_case_writes ::
  "world \<Rightarrow> ImageTestRunner \<Rightarrow> nat \<Rightarrow> TestCase \<Rightarrow> assignment list" where
  "run_test_case_writes w r t test_case =
     (case try_body w r t test_case of
        (ws, None) \<Rightarrow> ws
      | (ws, Some e) \<Rightarrow> ws @ except_handler w t e)"


definition run_test_case :: "world \<Rightarrow> ImageTestRunner \<Rightarrow> nat \<Rightarrow> TestCase \<Rightarrow> TestCase" where
  "run_test_case w r t test_case = foldl assign test_case (run_test_case_writes w r t test_case)"

text \<open>
  The report dictionary.  \<open>asdict\<close> copies the fields of a case, so a snapshot is the case as
  a value.  The keys \<open>passed\<close> and \<open>timestamp\<close> are also fields of a case and carry a suffix
  here.
\<close>

record report =
  test_cases :: "TestCase list"
  total_tests :: int
  passed_report :: int
  failed :: int
  success_rate :: real
  timestamp_report :: string

text \<open>
  The \<open>for\<close> loop of \<open>run_all_tests\<close> over the remaining cases; its state is the moment, the
  list \<open>results\<close> and \<open>passed_count\<close>.  A batch holds pairwise distinct case objects (the
  loader and the upload route build one object per case), so the change in place of the
  \<open>k\<close>-th object is the replacement of the \<open>k\<close>-th value.
\<close>

fun run_loop ::
  "world \<Rightarrow> ImageTestRunner \<Rightarrow> TestCase list \<Rightarrow> nat \<times> TestCase list \<times> int
     \<Rightarrow> nat \<times> TestCase list \<times> int" where
  "run_loop w r [] s = s"
| "run_loop w r (test_case # rest) (t, results, passed_count) =
     (let result = run_test_case w r t test_case
      in run_loop w r rest
           (Suc t, results @ [result],
            if passed result then passed_count + 1 else passed_count))"

definition run_all_tests :: "world \<Rightarrow> ImageTestRunner \<Rightarrow> nat \<Rightarrow> TestCase list \<Rightarrow> report" where
  "run_all_tests w r t cases =
     (case run_loop w r cases (t, [], 0) of
        (t', results, passed_count) \<Rightarrow>
          \<lparr>test_cases = results,
           total_tests = int (length cases),
           passed_report = passed_count,
           failed = int (length cases) - passed_count,
           success_rate =
             (if cases \<noteq> [] then (real_of_int passed_count / real (length cases)) * 100
              else 0),
           timestamp_report = now_isoformat w t'\<rparr>)"


section \<open>AzureComputerVisionClient\<close>

text \<open>
  The value \<open>response.json()\<close> returns.  An object is the list of its members, a key looked
  up from the front.
\<close>

datatype json_value =
    JNull
  | JBool bool
  | JNumber real
  | JString string
  | JArray "json_value list"
  | JObject "(string \<times> json_value) list"

text \<open>
  What \<open>describe_image\<close> of the Azure client can raise: an exception of a call to the outside
  (\<open>open\<close>, \<open>requests.post\<close>, \<open>response.json\<close>), an error of the interpreter at \<open>in\<close> or at a
  subscript, and its own \<open>Exception\<close> for a status other than 200, kept as status and text.
\<close>

datatype azure_exn =
    Outside exn
  | TypeError
  | KeyError
  | IndexError
  | AzureAPIError int string

fun substring :: "string \<Rightarrow> string \<Rightarrow> bool" where
  "substring k [] = (k = [])"
| "substring k (c # s) = (take (length k) (c # s) = k \<or> substring k s)"

text \<open>
  \<open>k in x\<close> for a string \<open>k\<close>: a key of a dict, an element of a list, a substring of a
  string; \<open>None\<close>, a boolean and a number are not iterable.
\<close>

fun contains :: "json_value \<Rightarrow> string \<Rightarrow> azure_exn + bool" where
  "contains (JObject kvs) k = Inr (k \<in> set (map fst kvs))"
| "contains (JArray xs) k = Inr (JString k \<in> set xs)"
| "contains (JString s) k = Inr (substring k s)"
| "contains JNull k = Inl TypeError"
| "contains (JBool b) k = Inl TypeError"
| "contains (JNumber n) k = Inl TypeError"

text \<open>\<open>x[k]\<close> for a string \<open>k\<close>: only a dict takes a string subscript.\<close>

fun getitem :: "json_value \<Rightarrow> string \<Rightarrow> azure_exn + json_value" where
  "getitem (JObject kvs) k = (case map_of kvs k of None \<Rightarrow> Inl KeyError | Some v \<Rightarrow> Inr v)"
| "getitem (JArray xs) k = Inl TypeError"
| "getitem (JString s) k = Inl TypeError"
| "getitem JNull k = Inl TypeError"
| "getitem (JBool b) k = Inl TypeError"
| "getitem (JNumber n) k = Inl TypeError"

text \<open>\<open>x[0]\<close>; the keys of a parsed object are strings, so \<open>0\<close> is never one of them.\<close>

fun getitem0 :: "json_value \<Rightarrow> azure_exn + json_value" where
  "getitem0 (JArray []) = Inl IndexError"
| "getitem0 (JArray (x # xs)) = Inr x"
| "getitem0 (JString []) = Inl IndexError"
| "getitem0 (JString (c # s)) = Inr (JString [c])"
| "getitem0 (JObject kvs) = Inl KeyError"
| "getitem0 JNull = Inl TypeError"
| "getitem0 (JBool b) = Inl TypeError"
| "getitem0 (JNumber n) = Inl TypeError"

text \<open>The truth value \<open>if captions:\<close> tests.\<close>

fun truthy :: "json_value \<Rightarrow> bool" where
  "truthy JNull = False"
| "truthy (JBool b) = b"
| "truthy (JNumber n) = (n \<noteq> 0)"
| "truthy (JString s) = (s \<noteq> [])"
| "truthy (JArray xs) = (xs \<noteq> [])"
| "truthy (JObject kvs) = (kvs \<noteq> [])"

record response =
  status_code :: int
  text_response :: string
  json :: "exn + json_value"

record http =
  open_rb :: "nat \<Rightarrow> string \<Rightarrow> exn + string"
  requests_post ::
    "nat \<Rightarrow> string \<Rightarrow> (string \<times> string) list \<Rightarrow> (string \<times> string) list \<Rightarrow> string
       \<Rightarrow> exn + response"

record AzureComputerVisionClient =
  endpoint :: string
  api_key :: string
  analyze_url :: string

definition AzureComputerVisionClient_init :: "string \<Rightarrow> string \<Rightarrow> AzureComputerVisionClient" where
  "AzureComputerVisionClient_init ep key =
     \<lparr>endpoint = ep, api_key = key, analyze_url = ep @ ''/vision/v3.2/analyze''\<rparr>"

text \<open>
  Lines 75 to 79: the two membership tests joined by \<open>and\<close>, the truth test of the captions
  and the first caption's text, the sentinel otherwise.
\<close>

definition most_confident_description :: "json_value \<Rightarrow> azure_exn + json_value" where
  "most_confident_description result =
     (case contains result ''description'' of
        Inl e \<Rightarrow> Inl e
      | Inr False \<Rightarrow> Inr (JString ''No description available'')
      | Inr True \<Rightarrow>
          (case getitem result ''description'' of
             Inl e \<Rightarrow> Inl e
           | Inr description \<Rightarrow>
               (case contains description ''captions'' of
                  Inl e \<Rightarrow> Inl e
                | Inr False \<Rightarrow> Inr (JString ''No description available'')
                | Inr True \<Rightarrow>
                    (case getitem description ''captions'' of
                       Inl e \<Rightarrow> Inl e
                     | Inr captions \<Rightarrow>
                         if truthy captions then
                           (case getitem0 captions of
                              Inl e \<Rightarrow> Inl e
                            | Inr caption \<Rightarrow> getitem caption ''text'')
                         else Inr (JString ''No description available'')))))"

definition describe_image ::
  "http \<Rightarrow> AzureComputerVisionClient \<Rightarrow> nat \<Rightarrow> string \<Rightarrow> azure_exn + json_value" where
  "describe_image h self t path =
     (let headers = [(''Ocp-Apim-Subscription-Key'', api_key self),
                     (''Content-Type'', ''application/octet-stream'')];
          params = [(''visualFeatures'', ''Description,Tags''), (''language'', ''en'')]
      in case open_rb h t path of
           Inl e \<Rightarrow> Inl (Outside e)
         | Inr image_data \<Rightarrow>
             (case requests_post h t (analyze_url self) headers params image_data of
                Inl e \<Rightarrow> Inl (Outside e)
              | Inr response \<Rightarrow>
                  if status_code response = 200 then
                    (case json response of
                       Inl e \<Rightarrow> Inl (Outside e)
                     | Inr result \<Rightarrow> most_confident_description result)
                  else Inl (AzureAPIError (status_code response) (text_response response))))"


section \<open>OpenAIVisionClient: the image type\<close>

text \<open>
  \<open>os.path.splitext\<close> of \<open>posixpath\<close>: the extension starts at the last dot of the last path
  component, unless only dots precede it there.  \<open>rfind\<close> is the last index of a character,
  \<open>-1\<close> when there is none.
\<close>

fun rfind_from :: "char \<Rightarrow> string \<Rightarrow> int \<Rightarrow> int \<Rightarrow> int" where
  "rfind_from c [] i found = found"
| "rfind_from c (x # xs) i found = rfind_from c xs (i + 1) (if x = c then i else found)"

definition rfind :: "string \<Rightarrow> char \<Rightarrow> int" where
  "rfind p c = rfind_from c p 0 (- 1)"

definition splitext :: "string \<Rightarrow> string \<times> string" where
  "splitext p =
     (let sepIndex = rfind p (CHR ''/'');
          dotIndex = rfind p (CHR ''.'')
      in if dotIndex > sepIndex \<and>
            list_ex (\<lambda>ch. ch \<noteq> CHR ''.'')
              (take (nat (dotIndex - (sepIndex + 1))) (drop (nat (sepIndex + 1)) p))
         then (take (nat dotIndex) p, drop (nat dotIndex) p)
         else (p, []))"

text \<open>\<open>str.lower\<close> on the letters \<open>A\<close> to \<open>Z\<close>; every other byte is kept.\<close>

definition lower_char :: "char \<Rightarrow> char" where
  "lower_char c =
     (case map_of (zip ''ABCDEFGHIJKLMNOPQRSTUVWXYZ'' ''abcdefghijklmnopqrstuvwxyz'') c of
        None \<Rightarrow> c
      | Some l \<Rightarrow> l)"

definition lower :: "string \<Rightarrow> string" where
  "lower s = map lower_char s"

text \<open>\<open>d.get(k, dflt)\<close> for a dict given by its items.\<close>

definition dict_get :: "('k \<times> 'v) list \<Rightarrow> 'k \<Rightarrow> 'v \<Rightarrow> 'v" where
  "dict_get d k dflt = (case map_of d k of None \<Rightarrow> dflt | Some v \<Rightarrow> v)"

text \<open>Lines 103 to 110 of \<open>OpenAIVisionClient.describe_image\<close>.\<close>

definition mime_type :: "string \<Rightarrow> string" where
  "mime_type path =
     (let ext = lower (snd (splitext path))
      in dict_get
           [(''.jpg'', ''image/jpeg''),
            (''.jpeg'', ''image/jpeg''),
            (''.png'', ''image/png''),
            (''.gif'', ''image/gif''),
            (''.webp'', ''image/webp'')]
           ext ''image/jpeg'')"


section \<open>A threshold of any type\<close>

text \<open>
  The constructor stores its threshold as it is given, and the web application passes on the
  value of the request's JSON field \<open>similarity_threshold\<close> untouched, so the threshold of a
  runner may be any JSON value.  \<open>score >= threshold\<close> of the pass decision is then a
  comparison of a float with that value: with a number it is the order of the numbers, with
  \<open>True\<close> and \<open>False\<close> the order with 1 and 0, and with \<open>None\<close>, a string, a list or a dict
  it raises \<open>TypeError\<close>, whose message names the operator and the two types in quotes.
\<close>

definition quoted :: "string \<Rightarrow> string" where
  "quoted s = CHR 0x27 # s @ [CHR 0x27]"

definition unorderable :: "string \<Rightarrow> string \<Rightarrow> string \<Rightarrow> exn" where
  "unorderable operator left right =
     Exception (quoted operator @ '' not supported between instances of '' @ quoted left
                @ '' and '' @ quoted right)"

fun float_ge :: "real \<Rightarrow> json_value \<Rightarrow> exn + bool" where
  "float_ge score (JNumber x) = Inr (score \<ge> x)"
| "float_ge score (JBool b) = Inr (score \<ge> (if b then 1 else 0))"
| "float_ge score JNull = Inl (unorderable ''>='' ''float'' ''NoneType'')"
| "float_ge score (JString s) = Inl (unorderable ''>='' ''float'' ''str'')"
| "float_ge score (JArray xs) = Inl (unorderable ''>='' ''float'' ''list'')"
| "float_ge score (JObject kvs) = Inl (unorderable ''>='' ''float'' ''dict'')"

text \<open>The runner with the threshold as the caller gave it, and its constructor.\<close>

record ImageTestRunner_raw =
  vision_client_raw :: "nat \<Rightarrow> string \<Rightarrow> exn + string"
  comparator_raw :: SemanticComparator
  similarity_threshold_raw :: json_value

definition ImageTestRunner_init_raw ::
  "(string \<Rightarrow> exn + SentenceTransformer) \<Rightarrow> (nat \<Rightarrow> string \<Rightarrow> exn + string) \<Rightarrow> json_value
     \<Rightarrow> exn + ImageTestRunner_raw" where
  "ImageTestRunner_init_raw load client threshold =
     (case SemanticComparator_init load ''all-MiniLM-L6-v2'' of
        Inl e \<Rightarrow> Inl e
      | Inr c \<Rightarrow>
          Inr \<lparr>vision_client_raw = client, comparator_raw = c,
               similarity_threshold_raw = threshold\<rparr>)"

text \<open>A runner of the record \<open>ImageTestRunner\<close> is a runner whose threshold is a number.\<close>

definition numeric :: "ImageTestRunner \<Rightarrow> ImageTestRunner_raw" where
  "numeric r =
     \<lparr>vision_client_raw = vision_client r, comparator_raw = comparator r,
      similarity_threshold_raw = JNumber (similarity_threshold r)\<rparr>"

text \<open>
  The \<open>try\<close> body with its fourth way out: the pass decision raises, after the description
  and the score have been assigned and before \<open>passed\<close> and the timestamp are.
\<close>

definition try_body_raw ::
  "world \<Rightarrow> ImageTestRunner_raw \<Rightarrow> nat \<Rightarrow> TestCase \<Rightarrow> assignment list \<times> exn option" where
  "try_body_raw w r t test_case =
     (if \<not> path_exists w t (image_path test_case) then
        ([], Some (FileNotFoundError (''Image file not found: '' @ image_path test_case)))
      else
        case vision_client_raw r t (image_path test_case) of
          Inl e \<Rightarrow> ([], Some e)
        | Inr description \<Rightarrow>
            (case compare (comparator_raw r) t (expected_description test_case) description of
               Inl e \<Rightarrow> ([Set_actual_description description], Some e)
             | Inr score \<Rightarrow>
                 (case float_ge score (similarity_threshold_raw r) of
                    Inl e \<Rightarrow>
                      ([Set_actual_description description,
                        Set_similarity_score score], Some e)
                  | Inr decision \<Rightarrow>
                      ([Set_actual_description description,
                        Set_similarity_score score,
                        Set_passed decision,
                        Set_timestamp (now_isoformat w t)], None))))"

definition run_test_case_writes_raw ::
  "world \<Rightarrow> ImageTestRunner_raw \<Rightarrow> nat \<Rightarrow> TestCase \<Rightarrow> assignment list" where
  "run_test_case_writes_raw w r t test_case =
     (case try_body_raw w r t test_case of
        (ws, None) \<Rightarrow> ws
      | (ws, Some e) \<Rightarrow> ws @ except_handler w t e)"

definition run_test_case_raw ::
  "world \<Rightarrow> ImageTestRunner_raw \<Rightarrow> nat \<Rightarrow> TestCase \<Rightarrow> TestCase" where
  "run_test_case_raw w r t test_case =
     foldl assign test_case (run_test_case_writes_raw w r t test_case)"


section \<open>A sample run\<close>

text \<open>
  A small world on which the definitions are evaluated: an embedding model of width two that
  is out of memory at moment 3, a vision client that answers by path, a file system in which
  one path is missing, and a clock that shows the moment in its last digit.
\<close>

definition sample_embed :: "string \<Rightarrow> embedding" where
  "sample_embed s =
     (if s = ''a dog in a park'' then [1, 0]
      else if s = ''a retriever in a park'' then [4 / 5, 3 / 5]
      else if s = ''a plate of pasta'' then [0, 1]
      else [3 / 5, - (4 / 5)])"

definition sample_model :: SentenceTransformer where
  "sample_model =
     \<lparr>encode = (\<lambda>t text1 text2.
        if t = 3 then Inl (Exception ''CUDA out of memory'')
        else Inr (sample_embed text1, sample_embed text2))\<rparr>"

definition sample_load :: "string \<Rightarrow> exn + SentenceTransformer" where
  "sample_load model_name = Inr sample_model"

definition sample_client :: "nat \<Rightarrow> string \<Rightarrow> exn + string" where
  "sample_client t p =
     (if p = ''dog.jpg'' then Inr ''a retriever in a park''
      else if p = ''car.png'' then Inr ''a red sports car''
      else Inl (Exception ''Connection refused''))"

definition sample_world :: world where
  "sample_world =
     \<lparr>path_exists = (\<lambda>t p. p \<noteq> ''missing.jpg''),
      now_isoformat = (\<lambda>t. ''2024-05-01T10:00:0'' @ [''0123456789'' ! (t mod 10)])\<rparr>"

definition sample_runner :: ImageTestRunner where
  "sample_runner =
     \<lparr>vision_client = sample_client, comparator = \<lparr>model = sample_model\<rparr>,
      similarity_threshold = 7 / 10\<rparr>"

text \<open>The sample runner as built from a request that carries the threshold as a string.\<close>

definition sample_runner_raw :: ImageTestRunner_raw where
  "sample_runner_raw =
     \<lparr>vision_client_raw = sample_client, comparator_raw = \<lparr>model = sample_model\<rparr>,
      similarity_threshold_raw = JString ''0.7''\<rparr>"

definition sample_cases :: "TestCase list" where
  "sample_cases =
     [new_TestCase 1 ''dog.jpg'' ''a dog in a park'',
      new_TestCase 2 ''net.jpg'' ''a dog in a park'',
      new_TestCase 3 ''missing.jpg'' ''a dog in a park'',
      new_TestCase 4 ''dog.jpg'' ''a dog in a park'',
      new_TestCase 5 ''car.png'' ''a plate of pasta'']"

text \<open>
  An Azure service that answers every request with status 200; the body depends on the bytes
  sent: no description, a description without captions, an empty caption list, one caption.
\<close>

definition sample_body :: "string \<Rightarrow> json_value" where
  "sample_body image_data =
     (if image_data = ''A'' then JObject [(''requestId'', JString ''r1'')]
      else if image_data = ''B'' then JObject [(''description'', JObject [(''tags'', JArray [])])]
      else if image_data = ''C'' then JObject [(''description'', JObject [(''captions'', JArray [])])]
      else JObject [(''description'', JObject [(''captions'',
             JArray [JObject [(''text'', JString ''a cat on a sofa''), (''confidence'', JNumber (9 / 10))],
                     JObject [(''text'', JString ''a sofa''), (''confidence'', JNumber (1 / 2))]])])])"

definition sample_http :: http where
  "sample_http =
     \<lparr>open_rb = (\<lambda>t p. Inr p),
      requests_post = (\<lambda>t url headers params image_data.
        Inr \<lparr>status_code = 200, text_response = [], json = Inr (sample_body image_data)\<rparr>)\<rparr>"

definition sample_azure :: AzureComputerVisionClient where
  "sample_azure = AzureComputerVisionClient_init ''https://example.test'' ''key''"


section \<open>How one case ends\<close>

text \<open>
  The four ways through \<open>run_test_case\<close>: the image is missing, the vision client raises, the
  comparator raises, the case is scored.
\<close>

lemma run_test_case_missing:
  assumes "\<not> path_exists w t (image_path tc)"
  shows "run_test_case w r t tc =
           tc\<lparr>actual_description := ''Error: Image file not found: '' @ image_path tc,
              passed := False, timestamp := now_isoformat w t\<rparr>"
  using assms by (simp add: run_test_case_def run_test_case_writes_def try_body_def except_handler_def)

lemma run_test_case_provider_raises:
  assumes "path_exists w t (image_path tc)"
      and "vision_client r t (image_path tc) = Inl e"
  shows "run_test_case w r t tc =
           tc\<lparr>actual_description := ''Error: '' @ str e,
              passed := False, timestamp := now_isoformat w t\<rparr>"
  using assms by (simp add: run_test_case_def run_test_case_writes_def try_body_def except_handler_def)

lemma run_test_case_comparator_raises:
  assumes "path_exists w t (image_path tc)"
      and "vision_client r t (image_path tc) = Inr d"
      and "compare (comparator r) t (expected_description tc) d = Inl e"
  shows "run_test_case w r t tc =
           tc\<lparr>actual_description := ''Error: '' @ str e,
              passed := False, timestamp := now_isoformat w t\<rparr>"
  using assms by (simp add: run_test_case_def run_test_case_writes_def try_body_def except_handler_def)

lemma run_test_case_scored:
  assumes "path_exists w t (image_path tc)"
      and "vision_client r t (image_path tc) = Inr d"
      and "compare (comparator r) t (expected_description tc) d = Inr s"
  shows "run_test_case w r t tc =
           tc\<lparr>actual_description := d, similarity_score := s,
              passed := (s \<ge> similarity_threshold r), timestamp := now_isoformat w t\<rparr>"
  using assms by (simp add: run_test_case_def run_test_case_writes_def try_body_def except_handler_def)

lemma init_fields:
  assumes "ImageTestRunner_init load client threshold = Inr r"
  shows "similarity_threshold r = threshold" and "vision_client r = client"
  using assms by (auto simp: ImageTestRunner_init_def split: sum.splits)

lemma run_loop_unfold:
  "run_loop w r cs (t, results, pc) =
     (t + length cs,
      results @ map2 (run_test_case w r) [t..<t + length cs] cs,
      pc + int (length (filter passed (map2 (run_test_case w r) [t..<t + length cs] cs))))"
proof (induction cs arbitrary: t results pc)
  case Nil
  show ?case by simp
next
  case (Cons c cs)
  have "[t..<t + length (c # cs)] = t # [Suc t..<t + length (c # cs)]"
    by (rule upt_conv_Cons) simp
  moreover have "t + length (c # cs) = Suc t + length cs"
    by simp
  ultimately have upt: "[t..<t + length (c # cs)] = t # [Suc t..<Suc t + length cs]"
    by (simp only:)
  have step: "run_loop w r (c # cs) (t, results, pc) =
      run_loop w r cs (Suc t, results @ [run_test_case w r t c],
        if passed (run_test_case w r t c) then pc + 1 else pc)"
    by (simp add: Let_def)
  show ?case
    unfolding step Cons.IH upt by (simp del: upt_Suc)
qed

lemma test_cases_run_all_tests:
  "test_cases (run_all_tests w r t cs) = map2 (run_test_case w r) [t..<t + length cs] cs"
  by (simp add: run_all_tests_def run_loop_unfold)

lemma passed_report_run_all_tests:
  "passed_report (run_all_tests w r t cs) =
     int (length (filter passed (test_cases (run_all_tests w r t cs))))"
  by (simp add: run_all_tests_def run_loop_unfold)

lemma nth_test_cases:
  assumes "k < length cs"
  shows "test_cases (run_all_tests w r t cs) ! k = run_test_case w r (t + k) (cs ! k)"
  using assms by (simp add: test_cases_run_all_tests)

lemma run_test_case_identity:
  "id_tc (run_test_case w r t tc) = id_tc tc"
  "image_path (run_test_case w r t tc) = image_path tc"
  "expected_description (run_test_case w r t tc) = expected_description tc"
  by (simp_all add: run_test_case_def run_test_case_writes_def try_body_def except_handler_def
        split: sum.splits)


section \<open>The cosine lies between -1 and 1\<close>

lemma dot_Cons [simp]: "dot (x # a) (y # b) = x * y + dot a b"
  by (simp add: dot_def)

lemma dot_Nil [simp]: "dot [] b = 0" "dot a [] = 0"
  by (simp_all add: dot_def)

lemma dot_self_nonneg: "0 \<le> dot a a"
  by (induction a) simp_all

lemma cross_term_bound:
  fixes x y S A B :: real
  assumes S: "S\<^sup>2 \<le> A * B" and A: "0 \<le> A" and B: "0 \<le> B"
  shows "(x * y + S)\<^sup>2 \<le> (x * x + A) * (y * y + B)"
proof -
  let ?u = "x * x * B" and ?v = "y * y * A" and ?p = "x * y * S"
  have uv: "0 \<le> ?u + ?v"
    using A B by simp
  have "?p\<^sup>2 = (x * y)\<^sup>2 * S\<^sup>2"
    by (simp add: power_mult_distrib)
  also have "\<dots> \<le> (x * y)\<^sup>2 * (A * B)"
    by (rule mult_left_mono[OF S]) simp
  also have "\<dots> = ?u * ?v"
    by (simp add: power2_eq_square algebra_simps)
  finally have p: "?p\<^sup>2 \<le> ?u * ?v" .
  have "0 \<le> (?u - ?v)\<^sup>2"
    by simp
  then have "4 * (?u * ?v) \<le> (?u + ?v)\<^sup>2"
    by (simp add: power2_eq_square algebra_simps)
  with p have "(2 * ?p)\<^sup>2 \<le> (?u + ?v)\<^sup>2"
    by (simp add: power_mult_distrib)
  then have "2 * ?p \<le> ?u + ?v"
    using uv by (rule power2_le_imp_le)
  moreover have "(x * y + S)\<^sup>2 = (x * y)\<^sup>2 + 2 * ?p + S\<^sup>2"
    by (simp add: power2_eq_square algebra_simps)
  moreover have "(x * x + A) * (y * y + B) = (x * y)\<^sup>2 + (?u + ?v) + A * B"
    by (simp add: power2_eq_square algebra_simps)
  ultimately show ?thesis
    using S by linarith
qed

lemma cauchy_schwarz: "(dot a b)\<^sup>2 \<le> dot a a * dot b b"
proof (induction a arbitrary: b)
  case Nil
  show ?case by simp
next
  case (Cons x a)
  show ?case
  proof (cases b)
    case Nil
    then show ?thesis by simp
  next
    case (Cons y b')
    show ?thesis
      unfolding Cons dot_Cons
      by (rule cross_term_bound[OF Cons.IH dot_self_nonneg dot_self_nonneg])
  qed
qed

lemma abs_dot_le: "\<bar>dot a b\<bar> \<le> magnitude a * magnitude b"
proof -
  have "(dot a b)\<^sup>2 \<le> (magnitude a * magnitude b)\<^sup>2"
    using cauchy_schwarz[of a b] dot_self_nonneg[of a] dot_self_nonneg[of b]
    by (simp add: magnitude_def power_mult_distrib)
  then have "\<bar>dot a b\<bar> \<le> \<bar>magnitude a * magnitude b\<bar>"
    by (simp only: abs_le_square_iff)
  moreover have "0 \<le> magnitude a * magnitude b"
    using dot_self_nonneg by (simp add: magnitude_def)
  ultimately show ?thesis by simp
qed

lemma cos_sim_bounds: "- 1 \<le> cos_sim a b \<and> cos_sim a b \<le> 1"
proof (cases "magnitude a = 0 \<or> magnitude b = 0")
  case True
  then show ?thesis by (simp add: cos_sim_def)
next
  case False
  have "0 \<le> magnitude a" "0 \<le> magnitude b"
    using dot_self_nonneg by (simp_all add: magnitude_def)
  with False have pos: "0 < magnitude a * magnitude b"
    by (simp add: less_le)
  have "\<bar>dot a b\<bar> / (magnitude a * magnitude b) \<le> 1"
    using abs_dot_le[of a b] pos by (simp add: divide_le_eq)
  moreover have "\<bar>dot a b / (magnitude a * magnitude b)\<bar> =
      \<bar>dot a b\<bar> / (magnitude a * magnitude b)"
    using pos by (simp only: abs_divide abs_of_pos)
  ultimately have "\<bar>dot a b / (magnitude a * magnitude b)\<bar> \<le> 1"
    by (simp only:)
  then have "- 1 \<le> dot a b / (magnitude a * magnitude b) \<and>
      dot a b / (magnitude a * magnitude b) \<le> 1"
    by linarith
  moreover have "cos_sim a b = dot a b / (magnitude a * magnitude b)"
    using False by (simp add: cos_sim_def)
  ultimately show ?thesis
    by (simp only:)
qed

lemma compare_bounds:
  assumes "compare c t text1 text2 = Inr s"
  shows "- 1 \<le> s \<and> s \<le> 1"
  using assms cos_sim_bounds by (auto simp: compare_def split: sum.splits prod.splits)


lemmas sample_defs = sample_world_def sample_runner_def sample_client_def new_TestCase_def
  compare_def sample_model_def sample_embed_def cos_sim_def magnitude_def dot_def sample_cases_def
  sample_load_def

lemmas run_defs = run_test_case_def run_test_case_writes_def try_body_def except_handler_def

lemma sample_init:
  "ImageTestRunner_init sample_load sample_client (7 / 10) = Inr sample_runner"
  by (simp add: ImageTestRunner_init_def SemanticComparator_init_def sample_load_def
        sample_runner_def)

lemma sample_passed:
  "map passed (test_cases (run_all_tests sample_world sample_runner 0 sample_cases))
     = [True, False, False, False, False]"
  by (simp add: run_all_tests_def run_defs sample_defs)


section \<open>The pass decision\<close>

text \<open>
  C2.  A runner built by the constructor with threshold \<open>threshold\<close> runs a case whose image
  exists, whose description the vision client returns and whose score the comparator
  returns: the case ends with \<open>passed\<close> equal to \<open>similarity_score \<ge> threshold\<close>, the score
  and the description are the returned ones, and the timestamp is the clock's reading.
\<close>

theorem pass_decision:
  assumes "ImageTestRunner_init load client threshold = Inr r"
      and "path_exists w t (image_path tc)"
      and "vision_client r t (image_path tc) = Inr d"
      and "compare (comparator r) t (expected_description tc) d = Inr s"
  shows "passed (run_test_case w r t tc) = (similarity_score (run_test_case w r t tc) \<ge> threshold)
       \<and> similarity_score (run_test_case w r t tc) = s
       \<and> actual_description (run_test_case w r t tc) = d
       \<and> timestamp (run_test_case w r t tc) = now_isoformat w t"
  using init_fields(1)[OF assms(1)] run_test_case_scored[OF assms(2-4)] by simp

theorem pass_decision_witness:
  "ImageTestRunner_init sample_load sample_client (7 / 10) = Inr sample_runner
   \<and> path_exists sample_world 0 (image_path (sample_cases ! 0))
   \<and> vision_client sample_runner 0 (image_path (sample_cases ! 0)) = Inr ''a retriever in a park''
   \<and> compare (comparator sample_runner) 0 (expected_description (sample_cases ! 0))
         ''a retriever in a park'' = Inr (4 / 5)
   \<and> passed (run_test_case sample_world sample_runner 0 (sample_cases ! 0))
   \<and> similarity_score (run_test_case sample_world sample_runner 0 (sample_cases ! 0)) = 4 / 5
   \<and> timestamp (run_test_case sample_world sample_runner 0 (sample_cases ! 0)) = ''2024-05-01T10:00:00''"
proof -
  have h1: "ImageTestRunner_init sample_load sample_client (7 / 10) = Inr sample_runner"
    by (simp add: ImageTestRunner_init_def SemanticComparator_init_def sample_load_def sample_runner_def)
  have h2: "path_exists sample_world 0 (image_path (sample_cases ! 0))"
    by (simp add: sample_defs)
  have h3: "vision_client sample_runner 0 (image_path (sample_cases ! 0)) = Inr ''a retriever in a park''"
    by (simp add: sample_defs)
  have h4: "compare (comparator sample_runner) 0 (expected_description (sample_cases ! 0))
         ''a retriever in a park'' = Inr (4 / 5)"
    by (simp add: sample_defs)
  show ?thesis
    using h1 h2 h3 h4 pass_decision[OF h1 h2 h3 h4] by (simp add: sample_world_def)
qed


section \<open>The report\<close>

lemma map_test_cases_frame:
  assumes "\<And>k c. f (run_test_case w r k c) = f c"
  shows "map f (test_cases (run_all_tests w r t cs)) = map f cs"
proof (rule nth_equalityI)
  show "length (map f (test_cases (run_all_tests w r t cs))) = length (map f cs)"
    by (simp add: test_cases_run_all_tests)
next
  fix k assume "k < length (map f (test_cases (run_all_tests w r t cs)))"
  then have k: "k < length cs"
    by (simp add: test_cases_run_all_tests)
  then have "k < length (test_cases (run_all_tests w r t cs))"
    by (simp add: test_cases_run_all_tests)
  then have "map f (test_cases (run_all_tests w r t cs)) ! k = f (test_cases (run_all_tests w r t cs) ! k)"
    by (rule nth_map)
  also have "\<dots> = f (cs ! k)"
    by (simp only: nth_test_cases[OF k] assms)
  also have "\<dots> = map f cs ! k"
    using k by simp
  finally show "map f (test_cases (run_all_tests w r t cs)) ! k = map f cs ! k" .
qed

text \<open>
  C3.  In the report of every batch, \<open>passed\<close> is the number of result cases whose \<open>passed\<close>
  field is true, \<open>failed\<close> is \<open>total_tests - passed\<close>, the two add up to \<open>total_tests\<close>,
  \<open>success_rate\<close> is \<open>passed / total_tests * 100\<close> for a batch that is not empty and \<open>0\<close>
  for the empty batch.
\<close>

theorem report_counts:
  "passed_report (run_all_tests w r t cs) =
       int (length (filter passed (test_cases (run_all_tests w r t cs))))
   \<and> total_tests (run_all_tests w r t cs) = int (length cs)
   \<and> failed (run_all_tests w r t cs) =
       total_tests (run_all_tests w r t cs) - passed_report (run_all_tests w r t cs)
   \<and> passed_report (run_all_tests w r t cs) + failed (run_all_tests w r t cs) =
       total_tests (run_all_tests w r t cs)
   \<and> (total_tests (run_all_tests w r t cs) > 0 \<longrightarrow>
        success_rate (run_all_tests w r t cs) =
          real_of_int (passed_report (run_all_tests w r t cs))
            / real_of_int (total_tests (run_all_tests w r t cs)) * 100)
   \<and> (cs = [] \<longrightarrow> success_rate (run_all_tests w r t cs) = 0)"
proof -
  have "passed_report (run_all_tests w r t cs) =
       int (length (filter passed (test_cases (run_all_tests w r t cs))))"
    by (rule passed_report_run_all_tests)
  moreover have "total_tests (run_all_tests w r t cs) = int (length cs)"
    by (simp add: run_all_tests_def split: prod.splits)
  moreover have "failed (run_all_tests w r t cs) =
       total_tests (run_all_tests w r t cs) - passed_report (run_all_tests w r t cs)"
    by (simp add: run_all_tests_def split: prod.splits)
  moreover have "total_tests (run_all_tests w r t cs) > 0 \<longrightarrow>
        success_rate (run_all_tests w r t cs) =
          real_of_int (passed_report (run_all_tests w r t cs))
            / real_of_int (total_tests (run_all_tests w r t cs)) * 100"
    by (simp add: run_all_tests_def split: prod.splits)
  moreover have "cs = [] \<longrightarrow> success_rate (run_all_tests w r t cs) = 0"
    by (simp add: run_all_tests_def split: prod.splits)
  ultimately show ?thesis by simp
qed

theorem report_counts_witness:
  "passed_report (run_all_tests sample_world sample_runner 0 sample_cases) = 1
   \<and> failed (run_all_tests sample_world sample_runner 0 sample_cases) = 4
   \<and> total_tests (run_all_tests sample_world sample_runner 0 sample_cases) = 5
   \<and> total_tests (run_all_tests sample_world sample_runner 0 sample_cases) > 0
   \<and> success_rate (run_all_tests sample_world sample_runner 0 sample_cases) = 20
   \<and> success_rate (run_all_tests sample_world sample_runner 0 []) = 0"
proof -
  have "length (filter passed (test_cases (run_all_tests sample_world sample_runner 0 sample_cases)))
      = length (filter id (map passed (test_cases (run_all_tests sample_world sample_runner 0 sample_cases))))"
    by (simp add: filter_map comp_def)
  then have n: "length (filter passed (test_cases (run_all_tests sample_world sample_runner 0 sample_cases))) = 1"
    unfolding sample_passed by simp
  have len: "length sample_cases = 5"
    by (simp add: sample_cases_def)
  show ?thesis
    using report_counts[of sample_world sample_runner 0 sample_cases]
          report_counts[of sample_world sample_runner 0 "[]"] n len
    by simp
qed

text \<open>
  C7.  The cases are run one after the other in the order of the input: the \<open>k\<close>-th snapshot
  of the report is the \<open>k\<close>-th input case as \<open>run_test_case\<close> leaves it at moment \<open>t + k\<close>.
  The report has as many snapshots as the batch has cases, with the ids, image paths and
  expected descriptions of the input in the input's order.
\<close>

theorem report_order:
  "test_cases (run_all_tests w r t cs) = map2 (run_test_case w r) [t..<t + length cs] cs
   \<and> length (test_cases (run_all_tests w r t cs)) = length cs
   \<and> map id_tc (test_cases (run_all_tests w r t cs)) = map id_tc cs
   \<and> map image_path (test_cases (run_all_tests w r t cs)) = map image_path cs
   \<and> map expected_description (test_cases (run_all_tests w r t cs)) = map expected_description cs"
proof (intro conjI)
  show "test_cases (run_all_tests w r t cs) = map2 (run_test_case w r) [t..<t + length cs] cs"
    by (rule test_cases_run_all_tests)
  show "length (test_cases (run_all_tests w r t cs)) = length cs"
    by (simp add: test_cases_run_all_tests)
  show "map id_tc (test_cases (run_all_tests w r t cs)) = map id_tc cs"
    by (rule map_test_cases_frame) (rule run_test_case_identity)
  show "map image_path (test_cases (run_all_tests w r t cs)) = map image_path cs"
    by (rule map_test_cases_frame) (rule run_test_case_identity)
  show "map expected_description (test_cases (run_all_tests w r t cs)) = map expected_description cs"
    by (rule map_test_cases_frame) (rule run_test_case_identity)
qed


section \<open>Isolation of failures\<close>

text \<open>
  The \<open>try\<close> body ends in an exception in exactly three ways: the image is missing, the
  vision client raises, the comparator raises.
\<close>

lemma try_body_raises_iff:
  "snd (try_body w r t tc) = Some e \<longleftrightarrow>
     (\<not> path_exists w t (image_path tc)
        \<and> e = FileNotFoundError (''Image file not found: '' @ image_path tc))
   \<or> (path_exists w t (image_path tc) \<and> vision_client r t (image_path tc) = Inl e)
   \<or> (path_exists w t (image_path tc)
        \<and> (\<exists>d. vision_client r t (image_path tc) = Inr d
              \<and> compare (comparator r) t (expected_description tc) d = Inl e))"
  by (auto simp: try_body_def split: sum.splits)

text \<open>The sample batch: one scored pass, three failures of the three kinds, one scored fail.\<close>

lemma sample_results:
  "test_cases (run_all_tests sample_world sample_runner 0 sample_cases) =
     [\<lparr>id_tc = 1, image_path = ''dog.jpg'', expected_description = ''a dog in a park'',
        actual_description = ''a retriever in a park'', similarity_score = 4 / 5,
        passed = True, timestamp = ''2024-05-01T10:00:00''\<rparr>,
      \<lparr>id_tc = 2, image_path = ''net.jpg'', expected_description = ''a dog in a park'',
        actual_description = ''Error: Connection refused'', similarity_score = 0,
        passed = False, timestamp = ''2024-05-01T10:00:01''\<rparr>,
      \<lparr>id_tc = 3, image_path = ''missing.jpg'', expected_description = ''a dog in a park'',
        actual_description = ''Error: Image file not found: missing.jpg'', similarity_score = 0,
        passed = False, timestamp = ''2024-05-01T10:00:02''\<rparr>,
      \<lparr>id_tc = 4, image_path = ''dog.jpg'', expected_description = ''a dog in a park'',
        actual_description = ''Error: CUDA out of memory'', similarity_score = 0,
        passed = False, timestamp = ''2024-05-01T10:00:03''\<rparr>,
      \<lparr>id_tc = 5, image_path = ''car.png'', expected_description = ''a plate of pasta'',
        actual_description = ''a red sports car'', similarity_score = - (4 / 5),
        passed = False, timestamp = ''2024-05-01T10:00:04''\<rparr>]"
  by (simp add: run_all_tests_def run_defs sample_defs)

text \<open>
  C1.  \<open>run_all_tests\<close> returns a report for every batch, whatever its cases raise.  The
  \<open>k\<close>-th result is the \<open>k\<close>-th case as \<open>run_test_case\<close> leaves it at its own moment, whatever
  happened to the cases before it.  A case whose image is missing, whose vision client
  raises or whose comparator raises ends with \<open>passed\<close> false, \<open>actual_description\<close> equal
  to \<open>Error: \<close> followed by the message of the exception, and the clock's reading as
  timestamp; a case in which nothing raises is scored, also after a failed one.
\<close>

theorem batch_isolation:
  assumes "k < length cs"
      and "c = cs ! k"
      and "m = t + k"
      and "res = test_cases (run_all_tests w r t cs) ! k"
  shows "length (test_cases (run_all_tests w r t cs)) = length cs
       \<and> res = run_test_case w r m c
       \<and> (\<not> path_exists w m (image_path c) \<longrightarrow>
            passed res = False
          \<and> actual_description res =
              ''Error: '' @ str (FileNotFoundError (''Image file not found: '' @ image_path c))
          \<and> timestamp res = now_isoformat w m)
       \<and> (\<forall>e. path_exists w m (image_path c) \<and> vision_client r m (image_path c) = Inl e \<longrightarrow>
            passed res = False
          \<and> actual_description res = ''Error: '' @ str e
          \<and> timestamp res = now_isoformat w m)
       \<and> (\<forall>d e. path_exists w m (image_path c) \<and> vision_client r m (image_path c) = Inr d
                 \<and> compare (comparator r) m (expected_description c) d = Inl e \<longrightarrow>
            passed res = False
          \<and> actual_description res = ''Error: '' @ str e
          \<and> timestamp res = now_isoformat w m)
       \<and> (\<forall>d s. path_exists w m (image_path c) \<and> vision_client r m (image_path c) = Inr d
                 \<and> compare (comparator r) m (expected_description c) d = Inr s \<longrightarrow>
            actual_description res = d
          \<and> similarity_score res = s
          \<and> passed res = (s \<ge> similarity_threshold r)
          \<and> timestamp res = now_isoformat w m)"
proof -
  have len: "length (test_cases (run_all_tests w r t cs)) = length cs"
    by (simp add: test_cases_run_all_tests)
  have res: "res = run_test_case w r m c"
    using assms nth_test_cases by simp
  have missing: "\<not> path_exists w m (image_path c) \<longrightarrow>
            passed res = False
          \<and> actual_description res =
              ''Error: '' @ str (FileNotFoundError (''Image file not found: '' @ image_path c))
          \<and> timestamp res = now_isoformat w m"
    unfolding res by (simp add: run_test_case_missing)
  have provider: "\<forall>e. path_exists w m (image_path c) \<and> vision_client r m (image_path c) = Inl e \<longrightarrow>
            passed res = False
          \<and> actual_description res = ''Error: '' @ str e
          \<and> timestamp res = now_isoformat w m"
    unfolding res by (simp add: run_test_case_provider_raises)
  have comparator: "\<forall>d e. path_exists w m (image_path c) \<and> vision_client r m (image_path c) = Inr d
                 \<and> compare (comparator r) m (expected_description c) d = Inl e \<longrightarrow>
            passed res = False
          \<and> actual_description res = ''Error: '' @ str e
          \<and> timestamp res = now_isoformat w m"
    unfolding res by (simp add: run_test_case_comparator_raises)
  have scored: "\<forall>d s. path_exists w m (image_path c) \<and> vision_client r m (image_path c) = Inr d
                 \<and> compare (comparator r) m (expected_description c) d = Inr s \<longrightarrow>
            actual_description res = d
          \<and> similarity_score res = s
          \<and> passed res = (s \<ge> similarity_threshold r)
          \<and> timestamp res = now_isoformat w m"
    unfolding res by (simp add: run_test_case_scored)
  from len res missing provider comparator scored show ?thesis
    by (intro conjI)
qed

theorem batch_isolation_witness:
  "\<not> path_exists sample_world 2 (image_path (sample_cases ! 2))
   \<and> vision_client sample_runner 1 (image_path (sample_cases ! 1)) = Inl (Exception ''Connection refused'')
   \<and> compare (comparator sample_runner) 3 (expected_description (sample_cases ! 3))
        ''a retriever in a park'' = Inl (Exception ''CUDA out of memory'')
   \<and> compare (comparator sample_runner) 4 (expected_description (sample_cases ! 4))
        ''a red sports car'' = Inr (- (4 / 5))
   \<and> length (test_cases (run_all_tests sample_world sample_runner 0 sample_cases)) = 5
   \<and> actual_description (test_cases (run_all_tests sample_world sample_runner 0 sample_cases) ! 1)
        = ''Error: Connection refused''
   \<and> actual_description (test_cases (run_all_tests sample_world sample_runner 0 sample_cases) ! 2)
        = ''Error: Image file not found: missing.jpg''
   \<and> actual_description (test_cases (run_all_tests sample_world sample_runner 0 sample_cases) ! 3)
        = ''Error: CUDA out of memory''
   \<and> \<not> passed (test_cases (run_all_tests sample_world sample_runner 0 sample_cases) ! 3)
   \<and> timestamp (test_cases (run_all_tests sample_world sample_runner 0 sample_cases) ! 3)
        = ''2024-05-01T10:00:03''
   \<and> similarity_score (test_cases (run_all_tests sample_world sample_runner 0 sample_cases) ! 4)
        = - (4 / 5)
   \<and> actual_description (test_cases (run_all_tests sample_world sample_runner 0 sample_cases) ! 4)
        = ''a red sports car''"
proof -
  let ?res = "\<lambda>k. test_cases (run_all_tests sample_world sample_runner 0 sample_cases) ! k"
  have k1: "1 < length sample_cases" and k2: "2 < length sample_cases"
    and k3: "3 < length sample_cases" and k4: "4 < length sample_cases"
    by (simp_all add: sample_cases_def)
  have m1: "(1::nat) = 0 + 1" and m2: "(2::nat) = 0 + 2"
    and m3: "(3::nat) = 0 + 3" and m4: "(4::nat) = 0 + 4"
    by simp_all
  note b1 = batch_isolation[where w = sample_world and r = sample_runner, OF k1 refl m1 refl]
  note b2 = batch_isolation[where w = sample_world and r = sample_runner, OF k2 refl m2 refl]
  note b3 = batch_isolation[where w = sample_world and r = sample_runner, OF k3 refl m3 refl]
  note b4 = batch_isolation[where w = sample_world and r = sample_runner, OF k4 refl m4 refl]
  have p1: "path_exists sample_world 1 (image_path (sample_cases ! 1))"
    by (simp add: sample_defs)
  have v1: "vision_client sample_runner 1 (image_path (sample_cases ! 1))
        = Inl (Exception ''Connection refused'')"
    by (simp add: sample_defs)
  have p2: "\<not> path_exists sample_world 2 (image_path (sample_cases ! 2))"
    by (simp add: sample_defs)
  have p3: "path_exists sample_world 3 (image_path (sample_cases ! 3))"
    by (simp add: sample_defs)
  have v3: "vision_client sample_runner 3 (image_path (sample_cases ! 3))
        = Inr ''a retriever in a park''"
    by (simp add: sample_defs)
  have c3: "compare (comparator sample_runner) 3 (expected_description (sample_cases ! 3))
        ''a retriever in a park'' = Inl (Exception ''CUDA out of memory'')"
    by (simp add: sample_defs)
  have p4: "path_exists sample_world 4 (image_path (sample_cases ! 4))"
    by (simp add: sample_defs)
  have v4: "vision_client sample_runner 4 (image_path (sample_cases ! 4))
        = Inr ''a red sports car''"
    by (simp add: sample_defs)
  have c4: "compare (comparator sample_runner) 4 (expected_description (sample_cases ! 4))
        ''a red sports car'' = Inr (- (4 / 5))"
    by (simp add: sample_defs)
  have "length (test_cases (run_all_tests sample_world sample_runner 0 sample_cases))
      = length sample_cases"
    using b1 by blast
  then have len: "length (test_cases (run_all_tests sample_world sample_runner 0 sample_cases)) = 5"
    by (simp add: sample_cases_def)
  have "actual_description (?res 1) = ''Error: '' @ str (Exception ''Connection refused'')"
    using b1 p1 v1 by blast
  then have r1: "actual_description (?res 1) = ''Error: Connection refused''"
    by simp
  have "actual_description (?res 2) = ''Error: '' @ str (FileNotFoundError
      (''Image file not found: '' @ image_path (sample_cases ! 2)))"
    using b2 p2 by blast
  then have r2: "actual_description (?res 2) = ''Error: Image file not found: missing.jpg''"
    by (simp add: sample_defs)
  have r3: "passed (?res 3) = False
      \<and> actual_description (?res 3) = ''Error: '' @ str (Exception ''CUDA out of memory'')
      \<and> timestamp (?res 3) = now_isoformat sample_world 3"
    using b3 p3 v3 c3 by blast
  have r3a: "actual_description (?res 3) = ''Error: CUDA out of memory''"
    using r3 by simp
  have r3p: "\<not> passed (?res 3)"
    using r3 by simp
  have r3t: "timestamp (?res 3) = ''2024-05-01T10:00:03''"
    using r3 by (simp add: sample_world_def)
  have r4: "actual_description (?res 4) = ''a red sports car''
      \<and> similarity_score (?res 4) = - (4 / 5)"
    using b4 p4 v4 c4 by blast
  have r4s: "similarity_score (?res 4) = - (4 / 5)"
    using r4 by simp
  have r4a: "actual_description (?res 4) = ''a red sports car''"
    using r4 by simp
  from p2 v1 c3 c4 len r1 r2 r3a r3p r3t r4s r4a show ?thesis
    by (intro conjI)
qed


section \<open>Assignments to actual_description\<close>





section \<open>The score on the error path\<close>

text \<open>With a number as threshold the runner of this section is the runner of the record.\<close>

lemmas raw_defs = run_test_case_raw_def run_test_case_writes_raw_def try_body_raw_def
  except_handler_def

lemma numeric_threshold_agrees:
  "try_body_raw w (numeric r) t tc = try_body w r t tc"
  "run_test_case_writes_raw w (numeric r) t tc = run_test_case_writes w r t tc"
  "run_test_case_raw w (numeric r) t tc = run_test_case w r t tc"
proof -
  show body: "try_body_raw w (numeric r) t tc = try_body w r t tc"
    by (simp add: try_body_raw_def try_body_def numeric_def split: sum.splits)
  show writes: "run_test_case_writes_raw w (numeric r) t tc = run_test_case_writes w r t tc"
    by (simp only: run_test_case_writes_raw_def run_test_case_writes_def body)
  show "run_test_case_raw w (numeric r) t tc = run_test_case w r t tc"
    by (simp only: run_test_case_raw_def run_test_case_def writes)
qed

lemma try_body_raw_raises_iff:
  "snd (try_body_raw w r t tc) = Some e \<longleftrightarrow>
     (\<not> path_exists w t (image_path tc)
        \<and> e = FileNotFoundError (''Image file not found: '' @ image_path tc))
   \<or> (path_exists w t (image_path tc) \<and> vision_client_raw r t (image_path tc) = Inl e)
   \<or> (path_exists w t (image_path tc)
        \<and> (\<exists>d. vision_client_raw r t (image_path tc) = Inr d
              \<and> compare (comparator_raw r) t (expected_description tc) d = Inl e))
   \<or> (path_exists w t (image_path tc)
        \<and> (\<exists>d s. vision_client_raw r t (image_path tc) = Inr d
              \<and> compare (comparator_raw r) t (expected_description tc) d = Inr s
              \<and> float_ge s (similarity_threshold_raw r) = Inl e))"
  by (auto simp: try_body_raw_def split: sum.splits)

text \<open>
  C9, as amended.  When the \<open>try\<close> body raises, the trace of \<open>run_test_case\<close> is what the
  body had assigned followed by the three assignments of the handler, to
  \<open>actual_description\<close>, \<open>passed\<close> and \<open>timestamp\<close>; the handler never assigns
  \<open>similarity_score\<close>.  When the image is missing, the vision client raises or the
  comparator raises, the score has not been assigned yet: the field keeps the value it had,
  0 for a case built by the constructor.  When the pass decision raises, because the
  threshold cannot be compared with a float, the field holds the score of the comparator.
\<close>

theorem handler_frame:
  assumes "snd (try_body_raw w r t tc) = Some e"
  shows "run_test_case_writes_raw w r t tc =
           fst (try_body_raw w r t tc) @
             [Set_actual_description (''Error: '' @ str e), Set_passed False,
              Set_timestamp (now_isoformat w t)]
       \<and> (\<forall>s. Set_similarity_score s \<notin> set (except_handler w t e))
       \<and> (\<not> path_exists w t (image_path tc)
            \<or> (\<exists>e'. vision_client_raw r t (image_path tc) = Inl e')
            \<or> (\<exists>d e'. vision_client_raw r t (image_path tc) = Inr d
                  \<and> compare (comparator_raw r) t (expected_description tc) d = Inl e') \<longrightarrow>
            similarity_score (run_test_case_raw w r t tc) = similarity_score tc
          \<and> (tc = new_TestCase i p x \<longrightarrow> similarity_score (run_test_case_raw w r t tc) = 0))
       \<and> (\<forall>d s. path_exists w t (image_path tc)
              \<and> vision_client_raw r t (image_path tc) = Inr d
              \<and> compare (comparator_raw r) t (expected_description tc) d = Inr s \<longrightarrow>
            similarity_score (run_test_case_raw w r t tc) = s)"
proof -
  have writes: "run_test_case_writes_raw w r t tc =
           fst (try_body_raw w r t tc) @
             [Set_actual_description (''Error: '' @ str e), Set_passed False,
              Set_timestamp (now_isoformat w t)]"
    using assms
    by (cases "try_body_raw w r t tc") (simp add: run_test_case_writes_raw_def except_handler_def)
  have handler: "\<forall>s. Set_similarity_score s \<notin> set (except_handler w t e)"
    by (simp add: except_handler_def)
  have early: "similarity_score (run_test_case_raw w r t tc) = similarity_score tc
          \<and> (tc = new_TestCase i p x \<longrightarrow> similarity_score (run_test_case_raw w r t tc) = 0)"
    if "\<not> path_exists w t (image_path tc)
            \<or> (\<exists>e'. vision_client_raw r t (image_path tc) = Inl e')
            \<or> (\<exists>d e'. vision_client_raw r t (image_path tc) = Inr d
                  \<and> compare (comparator_raw r) t (expected_description tc) d = Inl e')"
  proof -
    from that have "fst (try_body_raw w r t tc) = [] \<or>
        (\<exists>d. fst (try_body_raw w r t tc) = [Set_actual_description d])"
      by (auto simp: try_body_raw_def)
    then have same: "similarity_score (run_test_case_raw w r t tc) = similarity_score tc"
      unfolding run_test_case_raw_def writes by auto
    have "similarity_score (new_TestCase i p x) = 0"
      by (simp add: new_TestCase_def)
    with same show ?thesis
      by metis
  qed
  have late: "similarity_score (run_test_case_raw w r t tc) = s"
    if "path_exists w t (image_path tc)"
      and "vision_client_raw r t (image_path tc) = Inr d"
      and "compare (comparator_raw r) t (expected_description tc) d = Inr s" for d s
  proof -
    from that assms have "fst (try_body_raw w r t tc) =
        [Set_actual_description d, Set_similarity_score s]"
      by (auto simp: try_body_raw_def split: sum.splits)
    then show ?thesis
      unfolding run_test_case_raw_def writes by simp
  qed
  from writes handler early late show ?thesis
    by blast
qed

theorem handler_frame_witness:
  "snd (try_body_raw sample_world (numeric sample_runner) 3
          (new_TestCase 4 ''dog.jpg'' ''a dog in a park''))
     = Some (Exception ''CUDA out of memory'')
   \<and> compare (comparator_raw (numeric sample_runner)) 3 ''a dog in a park''
        ''a retriever in a park'' = Inl (Exception ''CUDA out of memory'')
   \<and> similarity_score (run_test_case_raw sample_world (numeric sample_runner) 3
        (new_TestCase 4 ''dog.jpg'' ''a dog in a park'')) = 0
   \<and> snd (try_body_raw sample_world sample_runner_raw 0
          (new_TestCase 1 ''dog.jpg'' ''a dog in a park''))
     = Some (unorderable ''>='' ''float'' ''str'')
   \<and> compare (comparator_raw sample_runner_raw) 0 ''a dog in a park''
        ''a retriever in a park'' = Inr (4 / 5)
   \<and> similarity_score (run_test_case_raw sample_world sample_runner_raw 0
        (new_TestCase 1 ''dog.jpg'' ''a dog in a park'')) = 4 / 5"
proof -
  let ?early = "new_TestCase 4 ''dog.jpg'' ''a dog in a park''"
  let ?late = "new_TestCase 1 ''dog.jpg'' ''a dog in a park''"
  have raised3: "snd (try_body_raw sample_world (numeric sample_runner) 3 ?early)
      = Some (Exception ''CUDA out of memory'')"
    by (simp add: try_body_raw_def numeric_def sample_defs)
  have client3: "vision_client_raw (numeric sample_runner) 3 (image_path ?early)
      = Inr ''a retriever in a park''"
    by (simp add: numeric_def sample_defs)
  have compare3: "compare (comparator_raw (numeric sample_runner)) 3 ''a dog in a park''
        ''a retriever in a park'' = Inl (Exception ''CUDA out of memory'')"
    by (simp add: numeric_def sample_defs)
  have expected3: "expected_description ?early = ''a dog in a park''"
    by (simp add: new_TestCase_def)
  note f3 = handler_frame[OF raised3, where i = 4 and p = "''dog.jpg''"
      and x = "''a dog in a park''"]
  have score3: "similarity_score (run_test_case_raw sample_world (numeric sample_runner) 3 ?early) = 0"
    using f3 client3 compare3 expected3 by metis
  have raised0: "snd (try_body_raw sample_world sample_runner_raw 0 ?late)
      = Some (unorderable ''>='' ''float'' ''str'')"
    by (simp add: try_body_raw_def sample_runner_raw_def sample_defs)
  have exists0: "path_exists sample_world 0 (image_path ?late)"
    by (simp add: sample_defs)
  have client0: "vision_client_raw sample_runner_raw 0 (image_path ?late)
      = Inr ''a retriever in a park''"
    by (simp add: sample_runner_raw_def sample_defs)
  have compare0: "compare (comparator_raw sample_runner_raw) 0 ''a dog in a park''
        ''a retriever in a park'' = Inr (4 / 5)"
    by (simp add: sample_runner_raw_def sample_defs)
  have expected0: "expected_description ?late = ''a dog in a park''"
    by (simp add: new_TestCase_def)
  note f0 = handler_frame[OF raised0]
  have score0: "similarity_score (run_test_case_raw sample_world sample_runner_raw 0 ?late) = 4 / 5"
    using f0 exists0 client0 compare0 expected0 by metis
  from raised3 compare3 score3 raised0 compare0 score0 show ?thesis
    by (intro conjI)
qed

text \<open>
  C9 as stated fails: a runner built with the threshold \<open>'0.7'\<close>, a string, scores a fresh
  case with \<open>4/5\<close>, raises at the pass decision, and the failed case reports \<open>4/5\<close>, not 0.
\<close>

theorem score_kept_counterexample:
  "ImageTestRunner_init_raw sample_load sample_client (JString ''0.7'') = Inr sample_runner_raw
   \<and> snd (try_body_raw sample_world sample_runner_raw 0 (new_TestCase 1 ''dog.jpg'' ''a dog in a park''))
       = Some (unorderable ''>='' ''float'' ''str'')
   \<and> passed (run_test_case_raw sample_world sample_runner_raw 0
        (new_TestCase 1 ''dog.jpg'' ''a dog in a park'')) = False
   \<and> similarity_score (new_TestCase 1 ''dog.jpg'' ''a dog in a park'') = 0
   \<and> similarity_score (run_test_case_raw sample_world sample_runner_raw 0
        (new_TestCase 1 ''dog.jpg'' ''a dog in a park'')) = 4 / 5"
  by (simp add: raw_defs sample_runner_raw_def ImageTestRunner_init_raw_def
        SemanticComparator_init_def sample_defs)


section \<open>The threshold is not validated\<close>

text \<open>
  C10.  For every real \<open>threshold\<close>, in or out of the interval from 0 to 1, the constructor
  returns a runner that stores it, provided the model loads.  A case passes exactly when it
  is scored with a score \<open>s \<ge> threshold\<close>; since no cosine exceeds 1, no case passes when
  the threshold is above 1.
\<close>

theorem threshold_unvalidated:
  assumes "load ''all-MiniLM-L6-v2'' = Inr m"
      and "r = \<lparr>vision_client = client, comparator = \<lparr>model = m\<rparr>,
                similarity_threshold = threshold\<rparr>"
  shows "ImageTestRunner_init load client threshold = Inr r
       \<and> passed (run_test_case w r t tc) =
           (path_exists w t (image_path tc)
            \<and> (\<exists>d s. client t (image_path tc) = Inr d
                  \<and> compare \<lparr>model = m\<rparr> t (expected_description tc) d = Inr s
                  \<and> s \<ge> threshold))
       \<and> (threshold > 1 \<longrightarrow> \<not> passed (run_test_case w r t tc))"
proof -
  have init: "ImageTestRunner_init load client threshold = Inr r"
    using assms by (simp add: ImageTestRunner_init_def SemanticComparator_init_def)
  have decision: "passed (run_test_case w r t tc) =
           (path_exists w t (image_path tc)
            \<and> (\<exists>d s. client t (image_path tc) = Inr d
                  \<and> compare \<lparr>model = m\<rparr> t (expected_description tc) d = Inr s
                  \<and> s \<ge> threshold))"
    unfolding assms(2) by (auto simp: run_defs split: sum.splits)
  have "\<not> passed (run_test_case w r t tc)" if "threshold > 1"
  proof
    assume "passed (run_test_case w r t tc)"
    then obtain d s where "compare \<lparr>model = m\<rparr> t (expected_description tc) d = Inr s"
      and "s \<ge> threshold"
      unfolding decision by blast
    with compare_bounds[of "\<lparr>model = m\<rparr>" t "expected_description tc" d s] that
    show False by simp
  qed
  with init decision show ?thesis
    by blast
qed

theorem threshold_unvalidated_witness:
  "sample_load ''all-MiniLM-L6-v2'' = Inr sample_model
   \<and> ImageTestRunner_init sample_load sample_client 2 =
       Inr \<lparr>vision_client = sample_client, comparator = \<lparr>model = sample_model\<rparr>,
            similarity_threshold = 2\<rparr>
   \<and> ImageTestRunner_init sample_load sample_client (- 3) =
       Inr \<lparr>vision_client = sample_client, comparator = \<lparr>model = sample_model\<rparr>,
            similarity_threshold = - 3\<rparr>
   \<and> \<not> passed (run_test_case sample_world
        \<lparr>vision_client = sample_client, comparator = \<lparr>model = sample_model\<rparr>,
         similarity_threshold = 2\<rparr> 0 (sample_cases ! 0))"
proof -
  have l: "sample_load ''all-MiniLM-L6-v2'' = Inr sample_model"
    by (simp add: sample_load_def)
  note hi = threshold_unvalidated[where load = sample_load and m = sample_model
      and client = sample_client and threshold = 2
      and w = sample_world and t = 0 and tc = "sample_cases ! 0", OF l refl]
  note lo = threshold_unvalidated[where load = sample_load and m = sample_model
      and client = sample_client and threshold = "- 3"
      and w = sample_world and t = 0 and tc = "sample_cases ! 0", OF l refl]
  have "(2::real) > 1" by simp
  with l hi lo show ?thesis
    by blast
qed


section \<open>The range of compare\<close>

text \<open>Two embeddings with a negative dot product have a negative cosine.\<close>

lemma cos_sim_negative:
  assumes "dot a b < 0"
  shows "cos_sim a b < 0"
proof -
  have "0 < \<bar>dot a b\<bar>"
    using assms by simp
  also have "\<dots> \<le> magnitude a * magnitude b"
    by (rule abs_dot_le)
  finally have pos: "0 < magnitude a * magnitude b" .
  then have "magnitude a \<noteq> 0" and "magnitude b \<noteq> 0"
    by auto
  then have "cos_sim a b = dot a b / (magnitude a * magnitude b)"
    by (simp add: cos_sim_def)
  with assms pos show ?thesis
    by (simp add: divide_neg_pos)
qed

text \<open>
  C4.  The docstring of \<open>compare\<close> promises a score between 0 and 1, and the function returns
  the cosine as it is.  On the sample model the texts \<open>a plate of pasta\<close> and
  \<open>a red sports car\<close> have the embeddings \<open>(0, 1)\<close> and \<open>(3/5, -4/5)\<close>, and \<open>compare\<close>
  returns \<open>-4/5\<close>.
\<close>

theorem compare_below_zero:
  "compare \<lparr>model = sample_model\<rparr> 0 ''a plate of pasta'' ''a red sports car'' = Inr (- (4 / 5))"
  by (simp add: sample_defs)


section \<open>The caption of the Azure client\<close>

lemma contains_object: "(k \<in> fst ` set kvs) = (map_of kvs k \<noteq> None)"
  by (simp add: map_of_eq_None_iff)

lemma no_description:
  assumes "map_of body ''description'' = None"
  shows "most_confident_description (JObject body) = Inr (JString ''No description available'')"
  using assms by (simp add: most_confident_description_def contains_object)

lemma no_captions:
  assumes "map_of body ''description'' = Some (JObject desc)"
      and "map_of desc ''captions'' = None"
  shows "most_confident_description (JObject body) = Inr (JString ''No description available'')"
  using assms by (simp add: most_confident_description_def contains_object)

lemma falsy_captions:
  assumes "map_of body ''description'' = Some (JObject desc)"
      and "map_of desc ''captions'' = Some captions"
      and "\<not> truthy captions"
  shows "most_confident_description (JObject body) = Inr (JString ''No description available'')"
  using assms by (simp add: most_confident_description_def contains_object)

lemma first_caption:
  assumes "map_of body ''description'' = Some (JObject desc)"
      and "map_of desc ''captions'' = Some (JArray (JObject caption # captions))"
      and "map_of caption ''text'' = Some txt"
  shows "most_confident_description (JObject body) = Inr txt"
  using assms by (simp add: most_confident_description_def contains_object)

lemma describe_image_200:
  assumes "open_rb h t path = Inr image_data"
      and "requests_post h t (analyze_url self)
             [(''Ocp-Apim-Subscription-Key'', api_key self),
              (''Content-Type'', ''application/octet-stream'')]
             [(''visualFeatures'', ''Description,Tags''), (''language'', ''en'')]
             image_data = Inr resp"
      and "status_code resp = 200"
      and "json resp = Inr result"
  shows "describe_image h self t path = most_confident_description result"
  using assms by (simp add: describe_image_def)

text \<open>
  Where \<open>description\<close> is not an object, or the first caption has no \<open>text\<close>, the
  interpreter raises at \<open>in\<close> or at the subscript.
\<close>

lemma description_not_an_object:
  "most_confident_description (JObject [(''description'', JNull)]) = Inl TypeError"
  "most_confident_description (JObject [(''description'', JString ''no captions'')]) = Inl TypeError"
  "most_confident_description (JObject [(''description'',
      JObject [(''captions'', JArray [JObject [(''confidence'', JNumber 1)]])])]) = Inl KeyError"
  by (simp_all add: most_confident_description_def)

text \<open>
  C5.  The image is read, the request is answered with status 200 and the body is a JSON
  object.  \<open>describe_image\<close> returns the sentinel \<open>No description available\<close> when the body
  has no \<open>description\<close>, when the \<open>description\<close> object has no \<open>captions\<close>, and when the
  captions are an empty list (or any other value that counts as false); it returns the
  \<open>text\<close> of the first caption when the caption list is not empty.
\<close>

theorem azure_caption_or_sentinel:
  assumes "open_rb h t path = Inr image_data"
      and "requests_post h t (analyze_url self)
             [(''Ocp-Apim-Subscription-Key'', api_key self),
              (''Content-Type'', ''application/octet-stream'')]
             [(''visualFeatures'', ''Description,Tags''), (''language'', ''en'')]
             image_data = Inr resp"
      and "status_code resp = 200"
      and "json resp = Inr (JObject body)"
  shows "(map_of body ''description'' = None \<longrightarrow>
            describe_image h self t path = Inr (JString ''No description available''))
       \<and> (\<forall>desc. map_of body ''description'' = Some (JObject desc)
              \<and> map_of desc ''captions'' = None \<longrightarrow>
            describe_image h self t path = Inr (JString ''No description available''))
       \<and> (\<forall>desc captions. map_of body ''description'' = Some (JObject desc)
              \<and> map_of desc ''captions'' = Some captions \<and> \<not> truthy captions \<longrightarrow>
            describe_image h self t path = Inr (JString ''No description available''))
       \<and> (\<forall>desc. map_of body ''description'' = Some (JObject desc)
              \<and> map_of desc ''captions'' = Some (JArray []) \<longrightarrow>
            describe_image h self t path = Inr (JString ''No description available''))
       \<and> (\<forall>desc caption captions txt. map_of body ''description'' = Some (JObject desc)
              \<and> map_of desc ''captions'' = Some (JArray (JObject caption # captions))
              \<and> map_of caption ''text'' = Some txt \<longrightarrow>
            describe_image h self t path = Inr txt)"
proof -
  note d = describe_image_200[OF assms]
  have a: "map_of body ''description'' = None \<longrightarrow>
            describe_image h self t path = Inr (JString ''No description available'')"
    unfolding d by (simp add: no_description)
  have b: "\<forall>desc. map_of body ''description'' = Some (JObject desc)
              \<and> map_of desc ''captions'' = None \<longrightarrow>
            describe_image h self t path = Inr (JString ''No description available'')"
    unfolding d by (simp add: no_captions)
  have c: "\<forall>desc captions. map_of body ''description'' = Some (JObject desc)
              \<and> map_of desc ''captions'' = Some captions \<and> \<not> truthy captions \<longrightarrow>
            describe_image h self t path = Inr (JString ''No description available'')"
    unfolding d by (simp add: falsy_captions)
  have c': "\<forall>desc. map_of body ''description'' = Some (JObject desc)
              \<and> map_of desc ''captions'' = Some (JArray []) \<longrightarrow>
            describe_image h self t path = Inr (JString ''No description available'')"
    unfolding d by (simp add: falsy_captions)
  have e: "\<forall>desc caption captions txt. map_of body ''description'' = Some (JObject desc)
              \<and> map_of desc ''captions'' = Some (JArray (JObject caption # captions))
              \<and> map_of caption ''text'' = Some txt \<longrightarrow>
            describe_image h self t path = Inr txt"
    unfolding d by (simp add: first_caption)
  from a b c c' e show ?thesis
    by (intro conjI)
qed

lemma sample_open: "open_rb sample_http 0 p = Inr p"
  by (simp add: sample_http_def)

lemma sample_post:
  "requests_post sample_http 0 (analyze_url sample_azure)
     [(''Ocp-Apim-Subscription-Key'', api_key sample_azure),
      (''Content-Type'', ''application/octet-stream'')]
     [(''visualFeatures'', ''Description,Tags''), (''language'', ''en'')] p
   = Inr \<lparr>status_code = 200, text_response = [], json = Inr (sample_body p)\<rparr>"
  by (simp add: sample_http_def)

theorem azure_caption_or_sentinel_witness:
  "sample_body ''A'' = JObject [(''requestId'', JString ''r1'')]
   \<and> describe_image sample_http sample_azure 0 ''A'' = Inr (JString ''No description available'')
   \<and> sample_body ''B'' = JObject [(''description'', JObject [(''tags'', JArray [])])]
   \<and> describe_image sample_http sample_azure 0 ''B'' = Inr (JString ''No description available'')
   \<and> sample_body ''C'' = JObject [(''description'', JObject [(''captions'', JArray [])])]
   \<and> describe_image sample_http sample_azure 0 ''C'' = Inr (JString ''No description available'')
   \<and> describe_image sample_http sample_azure 0 ''D'' = Inr (JString ''a cat on a sofa'')"
proof -
  let ?resp = "\<lambda>p. \<lparr>status_code = 200, text_response = [], json = Inr (sample_body p)\<rparr>"
  have ok: "status_code (?resp p) = 200" for p
    by simp
  have bA: "sample_body ''A'' = JObject [(''requestId'', JString ''r1'')]"
    by (simp add: sample_body_def)
  have bB: "sample_body ''B'' = JObject [(''description'', JObject [(''tags'', JArray [])])]"
    by (simp add: sample_body_def)
  have bC: "sample_body ''C'' = JObject [(''description'', JObject [(''captions'', JArray [])])]"
    by (simp add: sample_body_def)
  have bD: "sample_body ''D'' = JObject [(''description'', JObject [(''captions'',
             JArray [JObject [(''text'', JString ''a cat on a sofa''), (''confidence'', JNumber (9 / 10))],
                     JObject [(''text'', JString ''a sofa''), (''confidence'', JNumber (1 / 2))]])])]"
    by (simp add: sample_body_def)
  have jA: "json (?resp ''A'') = Inr (JObject [(''requestId'', JString ''r1'')])"
    by (simp add: bA)
  have jB: "json (?resp ''B'') = Inr (JObject [(''description'', JObject [(''tags'', JArray [])])])"
    by (simp add: bB)
  have jC: "json (?resp ''C'') = Inr (JObject [(''description'', JObject [(''captions'', JArray [])])])"
    by (simp add: bC)
  have jD: "json (?resp ''D'') = Inr (JObject [(''description'', JObject [(''captions'',
             JArray [JObject [(''text'', JString ''a cat on a sofa''), (''confidence'', JNumber (9 / 10))],
                     JObject [(''text'', JString ''a sofa''), (''confidence'', JNumber (1 / 2))]])])])"
    by (simp add: bD)
  have rA: "describe_image sample_http sample_azure 0 ''A'' = Inr (JString ''No description available'')"
    using azure_caption_or_sentinel[OF sample_open sample_post ok jA] by simp
  have rB: "describe_image sample_http sample_azure 0 ''B'' = Inr (JString ''No description available'')"
    using azure_caption_or_sentinel[OF sample_open sample_post ok jB] by simp
  have rC: "describe_image sample_http sample_azure 0 ''C'' = Inr (JString ''No description available'')"
    using azure_caption_or_sentinel[OF sample_open sample_post ok jC] by simp
  have rD: "describe_image sample_http sample_azure 0 ''D'' = Inr (JString ''a cat on a sofa'')"
    using azure_caption_or_sentinel[OF sample_open sample_post ok jD] by simp
  from bA rA bB rB bC rC rD show ?thesis
    by (intro conjI)
qed


section \<open>The image type of the OpenAI client\<close>

text \<open>
  C8.  The MIME type is read off the lowercased extension of the path: \<open>.jpg\<close> and \<open>.jpeg\<close>
  give \<open>image/jpeg\<close>, \<open>.png\<close> gives \<open>image/png\<close>, \<open>.gif\<close> gives \<open>image/gif\<close>, \<open>.webp\<close> gives
  \<open>image/webp\<close>, and every other extension, the empty one included, gives \<open>image/jpeg\<close>.
\<close>

theorem mime_type_mapping:
  "mime_type path =
     (if lower (snd (splitext path)) = ''.jpg'' then ''image/jpeg''
      else if lower (snd (splitext path)) = ''.jpeg'' then ''image/jpeg''
      else if lower (snd (splitext path)) = ''.png'' then ''image/png''
      else if lower (snd (splitext path)) = ''.gif'' then ''image/gif''
      else if lower (snd (splitext path)) = ''.webp'' then ''image/webp''
      else ''image/jpeg'')"
  by (simp add: mime_type_def dict_get_def Let_def)

lemmas ext_defs = splitext_def rfind_def lower_def lower_char_def

theorem mime_type_mapping_witness:
  "mime_type ''holiday.jpg'' = ''image/jpeg''
   \<and> mime_type ''scans/page.JPEG'' = ''image/jpeg''
   \<and> mime_type ''photos/Cat.PNG'' = ''image/png''
   \<and> mime_type ''anim.gif'' = ''image/gif''
   \<and> mime_type ''v1.2/pic.WebP'' = ''image/webp''
   \<and> mime_type ''scan.bmp'' = ''image/jpeg''
   \<and> mime_type ''v1.2/README'' = ''image/jpeg''
   \<and> mime_type ''.png'' = ''image/jpeg''"
proof -
  have "mime_type ''holiday.jpg'' = ''image/jpeg''"
    using mime_type_mapping[of "''holiday.jpg''"] by (simp add: ext_defs)
  moreover have "mime_type ''scans/page.JPEG'' = ''image/jpeg''"
    using mime_type_mapping[of "''scans/page.JPEG''"] by (simp add: ext_defs)
  moreover have "mime_type ''photos/Cat.PNG'' = ''image/png''"
    using mime_type_mapping[of "''photos/Cat.PNG''"] by (simp add: ext_defs)
  moreover have "mime_type ''anim.gif'' = ''image/gif''"
    using mime_type_mapping[of "''anim.gif''"] by (simp add: ext_defs)
  moreover have "mime_type ''v1.2/pic.WebP'' = ''image/webp''"
    using mime_type_mapping[of "''v1.2/pic.WebP''"] by (simp add: ext_defs)
  moreover have "mime_type ''scan.bmp'' = ''image/jpeg''"
    using mime_type_mapping[of "''scan.bmp''"] by (simp add: ext_defs)
  moreover have "mime_type ''v1.2/README'' = ''image/jpeg''"
    using mime_type_mapping[of "''v1.2/README''"] by (simp add: ext_defs)
  moreover have "mime_type ''.png'' = ''image/jpeg''"
    using mime_type_mapping[of "''.png''"] by (simp add: ext_defs)
  ultimately show ?thesis
    by (intro conjI)
qed

end
